theory Spec2Isabelle
  imports Main
begin

section \<open>Values shared by the resources\<close>

text \<open>
  A Go \<open>error\<close> is its message; a function returning \<open>error\<close> returns
  \<open>string option\<close>, \<open>None\<close> being \<open>nil\<close>. A slice that may be \<open>nil\<close> is a
  \<open>list option\<close>; ranging over a \<open>nil\<close> slice visits nothing.
\<close>

type_synonym error = string

definition slice :: "'a list option \<Rightarrow> 'a list" where
  "slice s = (case s of None \<Rightarrow> [] | Some xs \<Rightarrow> xs)"

record OAuth2ScopeConsentGrant =
  GrantId :: string
  Issuer :: string
  ScopeId :: string

record User =
  UserId :: string
  Status :: string
  Profile :: "(string \<times> string) list"

record UserCredentials =
  Password :: string
  RecoveryQuestion :: "(string \<times> string) option"

record CreateUserRequest =
  ReqProfile :: "(string \<times> string) list"
  Credentials :: UserCredentials

record Params =
  Search :: string
  Limit :: nat
  SortOrder :: string
  After :: string

record Role =
  AssignmentType :: string
  RoleId :: string
  RoleStatus :: string
  RoleType :: string

text \<open>
  What the code reads of an \<open>*okta.Response\<close>: the status code, and the \<open>after\<close>
  parameter of its next link.
\<close>

record Response =
  StatusCode :: nat
  NextAfter :: string

section \<open>The remote API\<close>

text \<open>
  The requests the sources issue through the SDK client. The helpers of the user
  resource that talk to the API and are not among the sources (\<open>assignAdminRolesToUser\<close>,
  \<open>assignGroupsToUser\<close>, \<open>updateUserStatus\<close>, \<open>updateAdminRolesOnUser\<close>,
  \<open>updateGroupsOnUser\<close>, \<open>setAdminRoles\<close>, \<open>setGroups\<close>) are taken as operations of
  the environment as well: each is one entry, whatever requests it is made of.
  \<open>DoReq\<close> is \<open>RequestExecutor.Do\<close> on a request of method, URL and body.
\<close>

datatype request =
    ListScopeConsentGrantsReq string
  | GrantConsentToScopeReq string OAuth2ScopeConsentGrant
  | RevokeScopeConsentGrantReq string string
  | ListUsersReq Params
  | CreateUserReq CreateUserRequest "bool option"
  | GetUserReq string
  | UpdateUserReq string "(string \<times> string) list"
  | ChangePasswordReq string string string
  | ChangeRecoveryQuestionReq string UserCredentials
  | DeactivateOrDeleteUserReq string
  | AssignAdminRolesToUserOp string "string list option"
  | AssignGroupsToUserOp string "string list option"
  | UpdateUserStatusOp string string
  | UpdateAdminRolesOnUserOp string "string list"
  | UpdateGroupsOnUserOp string "string list"
  | SetAdminRolesOp string
  | SetGroupsOp string
  | DoReq string string "Role option"

text \<open>
  What comes back: the response (\<open>None\<close> is a \<open>nil\<close> pointer), the error, and the decoded
  body, of which each caller reads the field of its own type.
\<close>

record reply =
  r_resp :: "Response option"
  r_err :: "error option"
  r_grants :: "OAuth2ScopeConsentGrant list option"
  r_users :: "User list"
  r_user :: User
  r_names :: "string list"
  r_roles :: "Role list option"
  r_role :: Role

text \<open>
  The remote side is any function from the requests issued so far and the next request
  to a reply. A run carries the list of the requests issued so far; \<open>send\<close> asks the
  remote side and appends the request.
\<close>

type_synonym client = "request list \<Rightarrow> request \<Rightarrow> reply"

definition send :: "client \<Rightarrow> request list \<Rightarrow> request \<Rightarrow> reply \<times> request list" where
  "send client h rq = (client h rq, h @ [rq])"

text \<open>
  Modelled from the spec: \<open>is404\<close>, \<open>suppressErrorOn404\<close> and \<open>sdk.GetAfterParam\<close> are
  helpers of the repository that are not among the sources. The spec has each request
  followed by a check of its status code, and pagination follow the list endpoint:
  \<open>is404\<close> compares with 404 (the check written out in \<open>resourceUserRead\<close>),
  \<open>suppressErrorOn404\<close> drops the error of a response with that status and hands any
  other error on, and \<open>GetAfterParam\<close> is the \<open>after\<close> parameter of the response's next
  link, empty when there is none.
\<close>

definition is404 :: "nat \<Rightarrow> bool" where
  "is404 status = (status = 404)"


definition GetAfterParam :: "Response option \<Rightarrow> string" where
  "GetAfterParam res = (case res of None \<Rightarrow> [] | Some r \<Rightarrow> NextAfter r)"

section \<open>The OAuth API scope resource: the diff\<close>

text \<open>
  Modelled from the spec: the helper \<open>contains\<close> of the provider's utilities is not among
  the sources. The spec speaks of a set difference between two string lists, so
  \<open>contains\<close> is the linear membership test on a list of strings.
\<close>

fun contains :: "string list \<Rightarrow> string \<Rightarrow> bool" where
  "contains [] e = False"
| "contains (a # as) e = (if a = e then True else contains as e)"

text \<open>
  The resource data of \<open>okta_app_oauth_api_scope\<close>: the id and the three fields of the
  schema. \<open>scopes\<close> is a \<open>TypeList\<close> of strings: order and duplicates are kept.
\<close>

record ScopeResourceData =
  ResourceId :: string
  app_id :: string
  issuer :: string
  scopes :: "string list"

text \<open>
  \<open>getOAuthApiScopeUpdateLists\<close>: four loops, each appending to a list that starts
  empty. The result is the pair \<open>(grantList, revokeList)\<close>.
\<close>

definition getOAuthApiScopeUpdateLists ::
  "ScopeResourceData \<Rightarrow> OAuth2ScopeConsentGrant list \<Rightarrow> string list \<times> string list" where
  "getOAuthApiScopeUpdateLists d frm =
    (let desiredScopes = foldl (\<lambda>acc scope. acc @ [scope]) [] (scopes d);
         currentScopes = foldl (\<lambda>acc currentScope. acc @ [ScopeId currentScope]) [] frm;
         revokeList = foldl (\<lambda>acc currentScope.
             if \<not> contains desiredScopes currentScope then acc @ [currentScope] else acc)
           [] currentScopes;
         grantList = foldl (\<lambda>acc desiredScope.
             if \<not> contains currentScopes desiredScope then acc @ [desiredScope] else acc)
           [] desiredScopes
     in (grantList, revokeList))"

section \<open>The OAuth API scope resource: the requests\<close>











text \<open>The requests of a run that change the remote state, and those about one scope.\<close>

fun mutating :: "request \<Rightarrow> bool" where
  "mutating (GrantConsentToScopeReq a g) = True"
| "mutating (RevokeScopeConsentGrantReq a i) = True"
| "mutating rq = False"



text \<open>A remote side on which every request succeeds and no grant exists.\<close>

definition okReply :: reply where
  "okReply = \<lparr>r_resp = Some \<lparr>StatusCode = 200, NextAfter = []\<rparr>, r_err = None,
     r_grants = Some [], r_users = [],
     r_user = \<lparr>UserId = ''00u1'', Status = ''ACTIVE'', Profile = []\<rparr>,
     r_names = [], r_roles = Some [],
     r_role = \<lparr>AssignmentType = [], RoleId = [], RoleStatus = [], RoleType = []\<rparr>\<rparr>"

definition okClient :: client where
  "okClient h rq = okReply"

text \<open>Concrete resource data and grants for the closed instances below.\<close>

definition exampleScopeData :: ScopeResourceData where
  "exampleScopeData =
    \<lparr>ResourceId = ''0oa1'', app_id = ''0oa1'', issuer = ''https://org'',
     scopes = [''a'', ''b'']\<rparr>"

definition exampleGrants :: "OAuth2ScopeConsentGrant list" where
  "exampleGrants =
    [\<lparr>GrantId = ''g1'', Issuer = ''https://org'', ScopeId = ''b''\<rparr>,
     \<lparr>GrantId = ''g2'', Issuer = ''https://org'', ScopeId = ''c''\<rparr>]"




section \<open>The users data source\<close>

text \<open>
  \<open>collectUsers\<close> calls itself for as long as the response carries an \<open>after\<close>
  parameter, so it need not return: it is a partial function, \<open>None\<close> being a run that
  never returns. \<open>results\<close> and \<open>qp\<close> are pointers in the source; the run returns
  their final values with the error and the requests issued.
\<close>

partial_function (option) collectUsers ::
  "client \<Rightarrow> User list \<Rightarrow> Params \<Rightarrow> request list
    \<Rightarrow> (error option \<times> User list \<times> Params \<times> request list) option" where
  "collectUsers client results qp h =
    (case send client h (ListUsersReq qp) of
       (r, h1) \<Rightarrow>
         (case r_err r of
            Some e \<Rightarrow> Some (Some e, results, qp, h1)
          | None \<Rightarrow>
              (if GetAfterParam (r_resp r) \<noteq> []
               then collectUsers client (results @ r_users r)
                      (qp\<lparr>After := GetAfterParam (r_resp r)\<rparr>) h1
               else Some (None, results @ r_users r, qp, h1))))"

declare collectUsers.simps [code]

text \<open>
  The pages a remote side serves along the requests \<open>collectUsers\<close> issues: each page is
  the users of a successful response with its \<open>after\<close> parameter, which is empty on the
  last page only.
\<close>

fun servesPages :: "client \<Rightarrow> request list \<Rightarrow> Params \<Rightarrow> (User list \<times> string) list \<Rightarrow> bool" where
  "servesPages client h qp [] = False"
| "servesPages client h qp ((us, a) # pages) =
    (r_err (client h (ListUsersReq qp)) = None
     \<and> r_users (client h (ListUsersReq qp)) = us
     \<and> GetAfterParam (r_resp (client h (ListUsersReq qp))) = a
     \<and> (if pages = [] then a = []
        else a \<noteq> [] \<and> servesPages client (h @ [ListUsersReq qp]) (qp\<lparr>After := a\<rparr>) pages))"

text \<open>The requests \<open>collectUsers\<close> issues for pages with the given \<open>after\<close> parameters.\<close>

fun pageRequests :: "Params \<Rightarrow> string list \<Rightarrow> request list" where
  "pageRequests qp [] = []"
| "pageRequests qp (a # as) = ListUsersReq qp # pageRequests (qp\<lparr>After := a\<rparr>) as"

text \<open>
  Within \<open>n\<close> requests the remote side answers with an error or with a response that
  carries no \<open>after\<close> parameter.
\<close>

fun stopsWithin :: "client \<Rightarrow> request list \<Rightarrow> Params \<Rightarrow> nat \<Rightarrow> bool" where
  "stopsWithin client h qp 0 = False"
| "stopsWithin client h qp (Suc n) =
    (if r_err (client h (ListUsersReq qp)) \<noteq> None then True
     else if GetAfterParam (r_resp (client h (ListUsersReq qp))) = [] then True
     else stopsWithin client (h @ [ListUsersReq qp])
            (qp\<lparr>After := GetAfterParam (r_resp (client h (ListUsersReq qp)))\<rparr>) n)"

section \<open>The user resource\<close>

text \<open>
  Modelled from the spec: the status constants are declared outside the sources; their
  values are the status names of the identity provider.
\<close>

definition statusActive :: string where "statusActive = ''ACTIVE''"
definition userStatusPasswordExpired :: string where
  "userStatusPasswordExpired = ''PASSWORD_EXPIRED''"
definition userStatusRecovery :: string where "userStatusRecovery = ''RECOVERY''"
definition userStatusStaged :: string where "userStatusStaged = ''STAGED''"
definition userStatusSuspended :: string where "userStatusSuspended = ''SUSPENDED''"
definition userStatusDeprovisioned :: string where
  "userStatusDeprovisioned = ''DEPROVISIONED''"

definition profileKeys :: "string list" where
  "profileKeys =
    [''city'', ''cost_center'', ''country_code'', ''custom_profile_attributes'',
     ''department'', ''display_name'', ''division'', ''email'', ''employee_number'',
     ''first_name'', ''honorific_prefix'', ''honorific_suffix'', ''last_name'', ''locale'',
     ''login'', ''manager'', ''manager_id'', ''middle_name'', ''mobile_phone'',
     ''nick_name'', ''organization'', ''postal_address'', ''preferred_language'',
     ''primary_phone'', ''profile_url'', ''second_email'', ''state'', ''street_address'',
     ''timezone'', ''title'', ''user_type'', ''zip_code'', ''password'',
     ''recovery_question'', ''recovery_answer'']"

definition mapStatus :: "string \<Rightarrow> string" where
  "mapStatus currentStatus =
    (if currentStatus = userStatusPasswordExpired \<or> currentStatus = userStatusRecovery
     then statusActive
     else currentStatus)"

text \<open>
  The values of the schema of \<open>okta_user\<close>: the string fields by key (an unset one reads
  as the empty string), the set \<open>admin_roles\<close>, and the set \<open>group_memberships\<close>, which
  \<open>GetOkExists\<close> tells apart from an absent one. The resource data hold the id and three
  levels of values: the prior state, the planned values, and the current ones, which are
  what \<open>d.Get\<close> reads and \<open>d.Set\<close> writes. \<open>HasChange\<close> and \<open>GetChange\<close> compare the
  prior state with the planned values.
\<close>

record Values =
  strs :: "string \<Rightarrow> string"
  admin_roles :: "string list"
  group_memberships :: "string list option"

record UserResourceData =
  user_id :: string
  prior :: Values
  planned :: Values
  current :: Values

definition Get :: "UserResourceData \<Rightarrow> string \<Rightarrow> string" where
  "Get d k = strs (current d) k"

definition SetStr :: "UserResourceData \<Rightarrow> string \<Rightarrow> string \<Rightarrow> UserResourceData" where
  "SetStr d k v = d\<lparr>current := (current d)\<lparr>strs := (strs (current d))(k := v)\<rparr>\<rparr>"

definition HasChange :: "UserResourceData \<Rightarrow> string \<Rightarrow> bool" where
  "HasChange d k =
    (if k = ''admin_roles''
     then set (admin_roles (prior d)) \<noteq> set (admin_roles (planned d))
     else if k = ''group_memberships''
     then map_option set (group_memberships (prior d))
            \<noteq> map_option set (group_memberships (planned d))
     else strs (prior d) k \<noteq> strs (planned d) k)"

fun hasProfileChangeLoop :: "UserResourceData \<Rightarrow> string list \<Rightarrow> bool" where
  "hasProfileChangeLoop d [] = False"
| "hasProfileChangeLoop d (k # ks) = (if HasChange d k then True else hasProfileChangeLoop d ks)"

definition hasProfileChange :: "UserResourceData \<Rightarrow> bool" where
  "hasProfileChange d = hasProfileChangeLoop d profileKeys"

text \<open>
  Modelled from the spec: the helpers below are not among the sources. The spec has them
  translate between the flat resource state and the request bodies, or reconcile admin
  roles and group memberships through the API. \<open>convertInterfaceToStringSet\<close> reads a
  set as a list and the nullable variant gives \<open>nil\<close> for an empty one;
  \<open>populateUserProfile\<close> reads the profile keys of the resource data;
  \<open>setNonPrimitives\<close> writes each pair of the flattened user with \<open>d.Set\<close> (a failure
  of \<open>d.Set\<close> is not modelled). Each helper that talks to the API is one operation of
  the environment; \<open>setAdminRoles\<close> and \<open>setGroups\<close> write the names that come back to
  their own field. \<open>flattenUser\<close>, which turns the user of a response into such pairs
  and may fail, is a parameter of the functions that call it.
\<close>

definition convertInterfaceToStringSet :: "string list \<Rightarrow> string list" where
  "convertInterfaceToStringSet xs = xs"

definition convertInterfaceToStringSetNullable :: "string list \<Rightarrow> string list option" where
  "convertInterfaceToStringSetNullable xs =
    (let arr = convertInterfaceToStringSet xs in if length arr < 1 then None else Some arr)"

definition populateUserProfile :: "UserResourceData \<Rightarrow> (string \<times> string) list" where
  "populateUserProfile d = map (\<lambda>k. (k, Get d k)) profileKeys"

definition setNonPrimitives ::
  "UserResourceData \<Rightarrow> (string \<times> string) list \<Rightarrow> error option \<times> UserResourceData" where
  "setNonPrimitives d valueMap = (None, foldl (\<lambda>acc (k, v). SetStr acc k v) d valueMap)"

definition assignAdminRolesToUser ::
  "string \<Rightarrow> string list option \<Rightarrow> client \<Rightarrow> request list \<Rightarrow> error option \<times> request list" where
  "assignAdminRolesToUser u roles client h =
    (case send client h (AssignAdminRolesToUserOp u roles) of (r, h1) \<Rightarrow> (r_err r, h1))"

definition assignGroupsToUser ::
  "string \<Rightarrow> string list option \<Rightarrow> client \<Rightarrow> request list \<Rightarrow> error option \<times> request list" where
  "assignGroupsToUser u groups client h =
    (case send client h (AssignGroupsToUserOp u groups) of (r, h1) \<Rightarrow> (r_err r, h1))"

definition updateUserStatus ::
  "string \<Rightarrow> string \<Rightarrow> client \<Rightarrow> request list \<Rightarrow> error option \<times> request list" where
  "updateUserStatus u status client h =
    (case send client h (UpdateUserStatusOp u status) of (r, h1) \<Rightarrow> (r_err r, h1))"

definition updateAdminRolesOnUser ::
  "string \<Rightarrow> string list \<Rightarrow> client \<Rightarrow> request list \<Rightarrow> error option \<times> request list" where
  "updateAdminRolesOnUser u roles client h =
    (case send client h (UpdateAdminRolesOnUserOp u roles) of (r, h1) \<Rightarrow> (r_err r, h1))"

definition updateGroupsOnUser ::
  "string \<Rightarrow> string list \<Rightarrow> client \<Rightarrow> request list \<Rightarrow> error option \<times> request list" where
  "updateGroupsOnUser u groups client h =
    (case send client h (UpdateGroupsOnUserOp u groups) of (r, h1) \<Rightarrow> (r_err r, h1))"

definition setAdminRoles ::
  "UserResourceData \<Rightarrow> client \<Rightarrow> request list
    \<Rightarrow> error option \<times> UserResourceData \<times> request list" where
  "setAdminRoles d client h =
    (case send client h (SetAdminRolesOp (user_id d)) of
       (r, h1) \<Rightarrow>
         (case r_err r of
            Some e \<Rightarrow> (Some e, d, h1)
          | None \<Rightarrow> (None, d\<lparr>current := (current d)\<lparr>admin_roles := r_names r\<rparr>\<rparr>, h1)))"

definition setGroups ::
  "UserResourceData \<Rightarrow> client \<Rightarrow> request list
    \<Rightarrow> error option \<times> UserResourceData \<times> request list" where
  "setGroups d client h =
    (case send client h (SetGroupsOp (user_id d)) of
       (r, h1) \<Rightarrow>
         (case r_err r of
            Some e \<Rightarrow> (Some e, d, h1)
          | None \<Rightarrow>
              (None, d\<lparr>current := (current d)\<lparr>group_memberships := Some (r_names r)\<rparr>\<rparr>, h1)))"

text \<open>
  A step that returns its error ends the function (\<open>if err != nil { return err }\<close>);
  otherwise the function goes on from the resource data and requests the step leaves.
\<close>

definition orReturn ::
  "error option \<times> UserResourceData \<times> request list
    \<Rightarrow> (UserResourceData \<Rightarrow> request list \<Rightarrow> error option \<times> UserResourceData \<times> request list)
    \<Rightarrow> error option \<times> UserResourceData \<times> request list" where
  "orReturn step rest =
    (case step of
       (Some e, d, h) \<Rightarrow> (Some e, d, h)
     | (None, d, h) \<Rightarrow> rest d h)"

text \<open>An error with the prefix that \<open>fmt.Errorf\<close> puts before it.\<close>

definition wrapErr :: "string \<Rightarrow> error option \<Rightarrow> error option" where
  "wrapErr prefix err = map_option (\<lambda>e. prefix @ e) err"

definition resourceUserRead ::
  "client \<Rightarrow> (User \<Rightarrow> (string \<times> string) list \<times> error option) \<Rightarrow> UserResourceData
    \<Rightarrow> request list \<Rightarrow> error option \<times> UserResourceData \<times> request list" where
  "resourceUserRead client flattenUser d h =
    (case send client h (GetUserReq (user_id d)) of
       (r, h1) \<Rightarrow>
         if (case r_resp r of None \<Rightarrow> False | Some resp \<Rightarrow> is404 (StatusCode resp))
         then (None, d\<lparr>user_id := []\<rparr>, h1)
         else
           (case r_err r of
              Some e \<Rightarrow> (Some (''[ERROR] Error Getting User from Okta: '' @ e), d, h1)
            | None \<Rightarrow>
                (let user = r_user r;
                     d1 = SetStr d ''status'' (mapStatus (Status user));
                     d2 = SetStr d1 ''raw_status'' (Status user);
                     (rawMap, ferr) = flattenUser user
                 in orReturn (ferr, d2, h1) (\<lambda>d2 h1.
                    orReturn (case setNonPrimitives d2 rawMap of (e, d3) \<Rightarrow> (e, d3, h1))
                      (\<lambda>d3 h1.
                    orReturn (setAdminRoles d3 client h1) (\<lambda>d4 h2.
                      if group_memberships (current d4) \<noteq> None
                      then setGroups d4 client h2
                      else (None, d4, h2)))))))"

text \<open>
  The first part of \<open>resourceUserCreate\<close> builds the request: the profile, the query
  parameter \<open>activate=false\<close> for a user that is to stay \<open>STAGED\<close>, the password and,
  when a recovery question is given, the recovery credential.
\<close>

definition createUserRequest :: "UserResourceData \<Rightarrow> request" where
  "createUserRequest d =
    (let profile = populateUserProfile d;
         qp = (if Get d ''status'' = userStatusStaged then Some False else None);
         password = Get d ''password'';
         recoveryQuestion = Get d ''recovery_question'';
         recoveryAnswer = Get d ''recovery_answer'';
         uc = \<lparr>Password = password,
               RecoveryQuestion =
                 (if recoveryQuestion \<noteq> [] then Some (recoveryQuestion, recoveryAnswer)
                  else None)\<rparr>;
         userBody = \<lparr>ReqProfile = profile, Credentials = uc\<rparr>
     in CreateUserReq userBody qp)"

definition resourceUserCreate ::
  "client \<Rightarrow> (User \<Rightarrow> (string \<times> string) list \<times> error option) \<Rightarrow> UserResourceData
    \<Rightarrow> request list \<Rightarrow> error option \<times> UserResourceData \<times> request list" where
  "resourceUserCreate client flattenUser d h =
    (case send client h (createUserRequest d) of
       (r, h1) \<Rightarrow>
         (case r_err r of
            Some e \<Rightarrow> (Some (''[ERROR] Error Creating User from Okta: '' @ e), d, h1)
          | None \<Rightarrow>
              (let user = r_user r;
                   d1 = d\<lparr>user_id := UserId user\<rparr>;
                   roles = convertInterfaceToStringSetNullable (admin_roles (current d1))
               in orReturn
                    (if roles \<noteq> None
                     then (case assignAdminRolesToUser (UserId user) roles client h1 of
                             (e, h2) \<Rightarrow> (e, d1, h2))
                     else (None, d1, h1))
                    (\<lambda>d1 h2.
                  orReturn
                    (if group_memberships (current d1) \<noteq> None
                     then (let groups = convertInterfaceToStringSetNullable
                                 (slice (group_memberships (current d1)))
                           in case assignGroupsToUser (UserId user) groups client h2 of
                                (e, h3) \<Rightarrow> (e, d1, h3))
                     else (None, d1, h2))
                    (\<lambda>d1 h3.
                  orReturn
                    (if Get d1 ''status'' = userStatusSuspended
                        \<or> Get d1 ''status'' = userStatusDeprovisioned
                     then (case updateUserStatus (UserId user) (Get d1 ''status'') client h3 of
                             (e, h4) \<Rightarrow>
                               (wrapErr ''[ERROR] Error Updating Status for User: '' e, d1, h4))
                     else (None, d1, h3))
                    (\<lambda>d1 h4. resourceUserRead client flattenUser d1 h4))))))"

text \<open>
  The requests of the creating stages in the order of the source, for a user that the
  remote side created with id \<open>uid\<close>: each of the three steps after the creation is
  there when the resource data ask for it.
\<close>

definition rolesStep :: "UserResourceData \<Rightarrow> string \<Rightarrow> request list" where
  "rolesStep d uid =
    (if admin_roles (current d) \<noteq> []
     then [AssignAdminRolesToUserOp uid (Some (admin_roles (current d)))] else [])"

definition groupsStep :: "UserResourceData \<Rightarrow> string \<Rightarrow> request list" where
  "groupsStep d uid =
    (if group_memberships (current d) \<noteq> None
     then [AssignGroupsToUserOp uid
             (convertInterfaceToStringSetNullable (slice (group_memberships (current d))))]
     else [])"

definition statusStep :: "UserResourceData \<Rightarrow> string \<Rightarrow> request list" where
  "statusStep d uid =
    (if Get d ''status'' = userStatusSuspended \<or> Get d ''status'' = userStatusDeprovisioned
     then [UpdateUserStatusOp uid (Get d ''status'')] else [])"

definition createSteps :: "UserResourceData \<Rightarrow> string \<Rightarrow> request list" where
  "createSteps d uid =
    [createUserRequest d] @ rolesStep d uid @ groupsStep d uid @ statusStep d uid"

text \<open>The remote side answers each of the requests without an error.\<close>

fun allOk :: "client \<Rightarrow> request list \<Rightarrow> request list \<Rightarrow> bool" where
  "allOk client h [] = True"
| "allOk client h (rq # rest) = (r_err (client h rq) = None \<and> allOk client (h @ [rq]) rest)"

function ensureUserDeleteLoop ::
  "client \<Rightarrow> string \<Rightarrow> nat \<Rightarrow> nat \<Rightarrow> request list \<Rightarrow> error option \<times> request list" where
  "ensureUserDeleteLoop client uid passes i h =
    (if i < passes
     then (case send client h (DeactivateOrDeleteUserReq uid) of
             (r, h1) \<Rightarrow>
               (case r_err r of
                  Some e \<Rightarrow>
                    (Some (''failed to deprovision or delete user from Okta: '' @ e), h1)
                | None \<Rightarrow> ensureUserDeleteLoop client uid passes (i + 1) h1))
     else (None, h))"
  by pat_completeness auto
termination
  by (relation "measure (\<lambda>(client, uid, passes, i, h). passes - i)") auto

definition ensureUserDelete ::
  "string \<Rightarrow> string \<Rightarrow> client \<Rightarrow> request list \<Rightarrow> error option \<times> request list" where
  "ensureUserDelete uid status client h =
    (let passes = (if status = userStatusDeprovisioned then 1 else 2)
     in ensureUserDeleteLoop client uid passes 0 h)"

definition resourceUserDelete ::
  "client \<Rightarrow> UserResourceData \<Rightarrow> request list \<Rightarrow> error option \<times> request list" where
  "resourceUserDelete client d h = ensureUserDelete (user_id d) (Get d ''status'') client h"


definition resourceUserUpdate ::
  "client \<Rightarrow> (User \<Rightarrow> (string \<times> string) list \<times> error option) \<Rightarrow> UserResourceData
    \<Rightarrow> request list \<Rightarrow> error option \<times> UserResourceData \<times> request list" where
  "resourceUserUpdate client flattenUser d h =
    (let status = Get d ''status'';
         statusChange = HasChange d ''status''
     in if status = userStatusStaged \<and> statusChange
        then (Some (''[ERROR] Okta will not allow a user to be updated to STAGED. ''
                @ ''Can set to STAGED on user creation only''), d, h)
        else
          (let roleChange = HasChange d ''admin_roles'';
               groupChange = HasChange d ''group_memberships'';
               userChange = hasProfileChange d;
               passwordChange = HasChange d ''password'';
               recoveryQuestionChange = HasChange d ''recovery_question'';
               recoveryAnswerChange = HasChange d ''recovery_answer''
           in orReturn
                (if statusChange
                 then (case updateUserStatus (user_id d) status client h of
                         (e, h1) \<Rightarrow>
                           (case e of
                              Some x \<Rightarrow>
                                (Some (''[ERROR] Error Updating Status for User: '' @ x), d, h1)
                            | None \<Rightarrow> (None, SetStr d ''status'' status, h1)))
                 else (None, d, h))
                (\<lambda>d h1.
              if status = userStatusDeprovisioned \<and> userChange
              then (Some (''[ERROR] Only the status of a DEPROVISIONED user can be updated, ''
                      @ ''we detected other change''), d, h1)
              else
              orReturn
                (if userChange
                 then (case send client h1 (UpdateUserReq (user_id d) (populateUserProfile d)) of
                         (r, h2) \<Rightarrow>
                           (wrapErr ''[ERROR] Error Updating User in Okta: '' (r_err r), d, h2))
                 else (None, d, h1))
                (\<lambda>d h2.
              orReturn
                (if roleChange
                 then (let roles = convertInterfaceToStringSet (admin_roles (current d))
                       in case updateAdminRolesOnUser (user_id d) roles client h2 of
                            (e, h3) \<Rightarrow>
                              (case e of
                                 Some x \<Rightarrow> (Some x, d, h3)
                               | None \<Rightarrow>
                                   (None, d\<lparr>current := (current d)\<lparr>admin_roles := roles\<rparr>\<rparr>, h3)))
                 else (None, d, h2))
                (\<lambda>d h3.
              orReturn
                (if groupChange
                 then (let groups = convertInterfaceToStringSet
                             (slice (group_memberships (current d)))
                       in case updateGroupsOnUser (user_id d) groups client h3 of
                            (e, h4) \<Rightarrow>
                              (case e of
                                 Some x \<Rightarrow> (Some x, d, h4)
                               | None \<Rightarrow>
                                   (None,
                                    d\<lparr>current := (current d)\<lparr>group_memberships := Some groups\<rparr>\<rparr>,
                                    h4)))
                 else (None, d, h3))
                (\<lambda>d h4.
              orReturn
                (if passwordChange
                 then (case send client h4
                              (ChangePasswordReq (user_id d) (strs (prior d) ''password'')
                                 (strs (planned d) ''password'')) of
                         (r, h5) \<Rightarrow>
                           (wrapErr ''[ERROR] Error Updating User password in Okta: '' (r_err r),
                            d, h5))
                 else (None, d, h4))
                (\<lambda>d h5.
              orReturn
                (if recoveryQuestionChange \<or> recoveryAnswerChange
                 then (case send client h5
                              (ChangeRecoveryQuestionReq (user_id d)
                                 \<lparr>Password = Get d ''password'',
                                  RecoveryQuestion =
                                    Some (Get d ''recovery_question'',
                                          Get d ''recovery_answer'')\<rparr>) of
                         (r, h6) \<Rightarrow>
                           (wrapErr
                              (''[ERROR] Error Updating User password recovery credentials ''
                                 @ ''in Okta: '') (r_err r),
                            d, h6))
                 else (None, d, h5))
                (\<lambda>d h6. resourceUserRead client flattenUser d h6))))))))"

text \<open>
  The stage of a request in the order of \<open>resourceUserCreate\<close>: the creation, the
  assignment of admin roles, the assignment of groups, the status update, and whatever
  the final read issues.
\<close>

fun stage :: "request \<Rightarrow> nat" where
  "stage (CreateUserReq body qp) = 0"
| "stage (AssignAdminRolesToUserOp u roles) = 1"
| "stage (AssignGroupsToUserOp u groups) = 2"
| "stage (UpdateUserStatusOp u s) = 3"
| "stage rq = 4"

text \<open>
  No request follows a request of the four creating stages that the remote side answered
  with an error: \<open>h\<close> is what was issued before, the list what was issued from there on.
\<close>

fun stopsAtFailure :: "client \<Rightarrow> request list \<Rightarrow> request list \<Rightarrow> bool" where
  "stopsAtFailure client h [] = True"
| "stopsAtFailure client h (rq # rest) =
    ((if r_err (client h rq) \<noteq> None \<and> stage rq < 4 then rest = [] else True)
     \<and> stopsAtFailure client (h @ [rq]) rest)"

text \<open>Resource data and remote sides for the closed instances on the user resource.\<close>

definition noValues :: Values where
  "noValues = \<lparr>strs = (\<lambda>k. []), admin_roles = [], group_memberships = None\<rparr>"

definition exampleUserData :: UserResourceData where
  "exampleUserData =
    \<lparr>user_id = ''00u1'',
     prior = noValues\<lparr>strs := (\<lambda>k. [])(''status'' := ''ACTIVE'')\<rparr>,
     planned = noValues\<lparr>strs := (\<lambda>k. [])(''status'' := ''STAGED'')\<rparr>,
     current = noValues\<lparr>strs := (\<lambda>k. [])(''status'' := ''STAGED'')\<rparr>\<rparr>"

definition newUserData :: UserResourceData where
  "newUserData =
    \<lparr>user_id = [],
     prior = noValues,
     planned = \<lparr>strs = (\<lambda>k. [])(''status'' := ''SUSPENDED''),
                admin_roles = [''APP_ADMIN''], group_memberships = Some [''00g1'']\<rparr>,
     current = \<lparr>strs = (\<lambda>k. [])(''status'' := ''SUSPENDED''),
                admin_roles = [''APP_ADMIN''], group_memberships = Some [''00g1'']\<rparr>\<rparr>"

definition flattenProfile :: "User \<Rightarrow> (string \<times> string) list \<times> error option" where
  "flattenProfile user = (Profile user, None)"

definition failDeleteClient :: client where
  "failDeleteClient h rq = okReply\<lparr>r_err := Some ''E0000007''\<rparr>"

definition failSecondDeleteClient :: client where
  "failSecondDeleteClient h rq =
    (if h = [] then okReply else okReply\<lparr>r_err := Some ''E0000007''\<rparr>)"

definition failRolesClient :: client where
  "failRolesClient h rq =
    (case rq of
       AssignAdminRolesToUserOp u roles \<Rightarrow> okReply\<lparr>r_err := Some ''E0000006''\<rparr>
     | _ \<Rightarrow> okReply)"

definition twoPagesClient :: client where
  "twoPagesClient h rq =
    (if h = []
     then okReply\<lparr>r_users := [\<lparr>UserId = ''00u1'', Status = ''ACTIVE'', Profile = []\<rparr>],
            r_resp := Some \<lparr>StatusCode = 200, NextAfter = ''00u1''\<rparr>\<rparr>
     else okReply\<lparr>r_users := [\<lparr>UserId = ''00u2'', Status = ''STAGED'', Profile = []\<rparr>]\<rparr>)"

definition exampleParams :: Params where
  "exampleParams = \<lparr>Search = ''profile.lastName eq A'', Limit = 200, SortOrder = ''0'', After = []\<rparr>"


definition expiredClient :: client where
  "expiredClient h rq =
    okReply\<lparr>r_user := \<lparr>UserId = ''00u1'', Status = ''PASSWORD_EXPIRED'',
                         Profile = [(''login'', ''a@example.com'')]\<rparr>\<rparr>"

definition examplePages :: "(User list \<times> string) list" where
  "examplePages =
    [([\<lparr>UserId = ''00u1'', Status = ''ACTIVE'', Profile = []\<rparr>], ''00u1''),
     ([\<lparr>UserId = ''00u2'', Status = ''STAGED'', Profile = []\<rparr>], [])]"

text \<open>
  The order of the requests \<open>new\<close> that a run of \<open>resourceUserCreate\<close> issued after
  \<open>h\<close>, with its error \<open>e\<close>: the creation comes first, the stages
  never go down, no creating stage occurs twice, nothing follows a failed creating
  request, and a run without error has issued exactly the creating steps asked for.
\<close>

definition createProperty ::
  "client \<Rightarrow> UserResourceData \<Rightarrow> request list \<Rightarrow> error option \<Rightarrow> request list \<Rightarrow> bool" where
  "createProperty client d h e new =
    ((\<exists>rest. new = createUserRequest d # rest)
     \<and> sorted (map stage new)
     \<and> distinct (filter (\<lambda>s. s < 4) (map stage new))
     \<and> stopsAtFailure client h new
     \<and> (e = None \<longrightarrow> filter (\<lambda>rq. stage rq < 4) new
           = createSteps d (UserId (r_user (client h (createUserRequest d))))))"

text \<open>The requests of creating the example user on a remote side where all succeeds.\<close>

definition exampleCreateTrace :: "request list" where
  "exampleCreateTrace =
    [createUserRequest newUserData,
     AssignAdminRolesToUserOp ''00u1'' (Some [''APP_ADMIN'']),
     AssignGroupsToUserOp ''00u1'' (Some [''00g1'']),
     UpdateUserStatusOp ''00u1'' ''SUSPENDED'',
     GetUserReq ''00u1'', SetAdminRolesOp ''00u1'', SetGroupsOp ''00u1'']"

section \<open>The role functions of the SDK supplement\<close>

text \<open>
  \<open>RequestExecutor.NewRequest\<close> belongs to the vendor's SDK, outside the repository: it is
  a parameter that gives the error, if any, of building the request from method, URL and
  body. \<open>RequestExecutor.Do\<close> is the request \<open>DoReq\<close> to the remote side. A query
  parameter \<open>qp\<close> is given by the string \<open>qp.String()\<close> renders, \<open>None\<close> being \<open>nil\<close>,
  and a \<open>RoleGroupTarget\<close> by its id. Each function returns what the source returns,
  with the requests issued.
\<close>

type_synonym newRequest = "string \<Rightarrow> string \<Rightarrow> Role option \<Rightarrow> error option"

definition DeleteAdminRole ::
  "newRequest \<Rightarrow> client \<Rightarrow> string \<Rightarrow> string \<Rightarrow> request list
    \<Rightarrow> (Response option \<times> error option) \<times> request list" where
  "DeleteAdminRole NewRequest client groupId roleId h =
    (let url = ''/api/v1/groups/'' @ groupId @ ''/roles/'' @ roleId
     in case NewRequest ''DELETE'' url None of
          Some err \<Rightarrow> ((None, Some err), h)
        | None \<Rightarrow>
            (case send client h (DoReq ''DELETE'' url None) of
               (r, h1) \<Rightarrow> ((r_resp r, r_err r), h1)))"

definition ListAdminRoles ::
  "newRequest \<Rightarrow> client \<Rightarrow> string \<Rightarrow> string option \<Rightarrow> request list
    \<Rightarrow> (Role list option \<times> Response option \<times> error option) \<times> request list" where
  "ListAdminRoles NewRequest client groupId qp h =
    (let url = ''/api/v1/groups/'' @ groupId @ ''/roles'';
         url = (case qp of None \<Rightarrow> url | Some q \<Rightarrow> url @ q)
     in case NewRequest ''GET'' url None of
          Some err \<Rightarrow> ((None, None, Some err), h)
        | None \<Rightarrow>
            (case send client h (DoReq ''GET'' url None) of
               (r, h1) \<Rightarrow> ((r_roles r, r_resp r, r_err r), h1)))"

definition CreateAdminRole ::
  "newRequest \<Rightarrow> client \<Rightarrow> string \<Rightarrow> Role \<Rightarrow> string option \<Rightarrow> request list
    \<Rightarrow> (Role option \<times> Response option \<times> error option) \<times> request list" where
  "CreateAdminRole NewRequest client groupId body qp h =
    (let url = ''/api/v1/groups/'' @ groupId @ ''/roles'';
         url = (case qp of None \<Rightarrow> url | Some q \<Rightarrow> url @ q)
     in case NewRequest ''POST'' url (Some body) of
          Some err \<Rightarrow> ((None, None, Some err), h)
        | None \<Rightarrow>
            (case send client h (DoReq ''POST'' url (Some body)) of
               (r, h1) \<Rightarrow> ((Some (r_role r), r_resp r, r_err r), h1)))"

definition DeleteAdminRoleGroupTarget ::
  "newRequest \<Rightarrow> client \<Rightarrow> string \<Rightarrow> string \<Rightarrow> string \<Rightarrow> request list
    \<Rightarrow> (Response option \<times> error option) \<times> request list" where
  "DeleteAdminRoleGroupTarget NewRequest client groupId roleId targetGroupId h =
    (let url = ''/api/v1/groups/'' @ groupId @ ''/roles/'' @ roleId
               @ ''/targets/groups/'' @ targetGroupId
     in case NewRequest ''DELETE'' url None of
          Some err \<Rightarrow> ((None, Some err), h)
        | None \<Rightarrow>
            (case send client h (DoReq ''DELETE'' url None) of
               (r, h1) \<Rightarrow> ((r_resp r, r_err r), h1)))"

definition ListAdminRoleGroupTargets ::
  "newRequest \<Rightarrow> client \<Rightarrow> string \<Rightarrow> string \<Rightarrow> string option \<Rightarrow> request list
    \<Rightarrow> (string list \<times> Response option \<times> error option) \<times> request list" where
  "ListAdminRoleGroupTargets NewRequest client groupId roleId qp h =
    (let url = ''/api/v1/groups/'' @ groupId @ ''/roles/'' @ roleId @ ''/targets/groups'';
         url = (case qp of None \<Rightarrow> url | Some q \<Rightarrow> url @ q)
     in case NewRequest ''GET'' url None of
          Some err \<Rightarrow> (([], None, Some err), h)
        | None \<Rightarrow>
            (case send client h (DoReq ''GET'' url None) of
               (r, h1) \<Rightarrow> ((r_names r, r_resp r, r_err r), h1)))"

definition CreateAdminRoleGroupTarget ::
  "newRequest \<Rightarrow> client \<Rightarrow> string \<Rightarrow> string \<Rightarrow> string \<Rightarrow> request list
    \<Rightarrow> (Response option \<times> error option) \<times> request list" where
  "CreateAdminRoleGroupTarget NewRequest client groupId roleId targetGroupId h =
    (let url = ''/api/v1/groups/'' @ groupId @ ''/roles/'' @ roleId
               @ ''/targets/groups/'' @ targetGroupId
     in case NewRequest ''PUT'' url None of
          Some err \<Rightarrow> ((None, Some err), h)
        | None \<Rightarrow>
            (case send client h (DoReq ''PUT'' url None) of
               (r, h1) \<Rightarrow> ((r_resp r, r_err r), h1)))"

text \<open>The requests a run added to those issued before it.\<close>

definition issued :: "request list \<Rightarrow> request list \<Rightarrow> request list" where
  "issued h h' = drop (length h) h'"


text \<open>
  A run from \<open>h\<close> to \<open>h'\<close> kept the requests issued before it and added at most \<open>n\<close>.
\<close>

definition issuesAtMost :: "nat \<Rightarrow> request list \<Rightarrow> request list \<Rightarrow> bool" where
  "issuesAtMost n h h' = (h' = h @ issued h h' \<and> length (issued h h') \<le> n)"

section \<open>Facts about the loops\<close>

lemma contains_iff: "contains xs e \<longleftrightarrow> e \<in> set xs"
  by (induction xs) auto

lemma foldl_append_map: "foldl (\<lambda>acc x. acc @ [f x]) a xs = a @ map f xs"
  by (induction xs arbitrary: a) simp_all

lemma foldl_append_filter:
  "foldl (\<lambda>acc x. if P x then acc @ [x] else acc) a xs = a @ filter P xs"
  by (induction xs arbitrary: a) simp_all

lemma update_lists_eq:
  "getOAuthApiScopeUpdateLists d frm =
     (filter (\<lambda>s. s \<notin> set (map ScopeId frm)) (scopes d),
      filter (\<lambda>s. s \<notin> set (scopes d)) (map ScopeId frm))"
proof -
  have m1: "foldl (\<lambda>acc scope. acc @ [scope]) [] (scopes d) = scopes d"
    using foldl_append_map [of "\<lambda>x. x" "[]" "scopes d"] by simp
  have m2: "foldl (\<lambda>acc c. acc @ [ScopeId c]) [] frm = map ScopeId frm"
    using foldl_append_map [of ScopeId "[]" frm] by simp
  show ?thesis
    unfolding getOAuthApiScopeUpdateLists_def Let_def m1 m2
    by (simp add: foldl_append_filter contains_iff)
qed

text \<open>
  C1. For every desired scope list and every list of current grants, the grant list holds
  exactly the desired scope ids that are not among the current scope ids, and the revoke
  list exactly the current scope ids that are not among the desired ones: each list is
  the other-way set difference, and it keeps the order and the repetitions of the list it
  is taken from.
\<close>

theorem C1_update_lists_set_difference:
  "set (fst (getOAuthApiScopeUpdateLists d frm)) = set (scopes d) - ScopeId ` set frm
   \<and> set (snd (getOAuthApiScopeUpdateLists d frm)) = ScopeId ` set frm - set (scopes d)
   \<and> fst (getOAuthApiScopeUpdateLists d frm)
       = filter (\<lambda>s. s \<notin> ScopeId ` set frm) (scopes d)
   \<and> snd (getOAuthApiScopeUpdateLists d frm)
       = filter (\<lambda>s. s \<notin> set (scopes d)) (map ScopeId frm)"
  by (auto simp: update_lists_eq)

text \<open>
  C2. When neither the desired scope list nor the list of current scope ids repeats an
  element, the grant list and the revoke list repeat none either, they have no element in
  common, and together they hold exactly the symmetric difference of the two sets.
\<close>

theorem C2_update_lists_partition:
  assumes "distinct (scopes d)" and "distinct (map ScopeId frm)"
  shows "distinct (fst (getOAuthApiScopeUpdateLists d frm))
    \<and> distinct (snd (getOAuthApiScopeUpdateLists d frm))
    \<and> set (fst (getOAuthApiScopeUpdateLists d frm))
        \<inter> set (snd (getOAuthApiScopeUpdateLists d frm)) = {}
    \<and> set (fst (getOAuthApiScopeUpdateLists d frm))
        \<union> set (snd (getOAuthApiScopeUpdateLists d frm))
        = (set (scopes d) - ScopeId ` set frm) \<union> (ScopeId ` set frm - set (scopes d))"
  using assms by (auto simp: update_lists_eq)

theorem C2_update_lists_partition_witness:
  "distinct (scopes exampleScopeData) \<and> distinct (map ScopeId exampleGrants)
   \<and> distinct (fst (getOAuthApiScopeUpdateLists exampleScopeData exampleGrants))
   \<and> distinct (snd (getOAuthApiScopeUpdateLists exampleScopeData exampleGrants))
   \<and> set (fst (getOAuthApiScopeUpdateLists exampleScopeData exampleGrants))
        \<inter> set (snd (getOAuthApiScopeUpdateLists exampleScopeData exampleGrants)) = {}
   \<and> set (fst (getOAuthApiScopeUpdateLists exampleScopeData exampleGrants))
        \<union> set (snd (getOAuthApiScopeUpdateLists exampleScopeData exampleGrants))
        = {''a'', ''c''}"
proof -
  have h1: "distinct (scopes exampleScopeData)"
    by (simp add: exampleScopeData_def)
  have h2: "distinct (map ScopeId exampleGrants)"
    by (simp add: exampleGrants_def)
  have e: "(set (scopes exampleScopeData) - ScopeId ` set exampleGrants)
      \<union> (ScopeId ` set exampleGrants - set (scopes exampleScopeData)) = {''a'', ''c''}"
    by (auto simp add: exampleScopeData_def exampleGrants_def)
  from C2_update_lists_partition [OF h1 h2] h1 h2 e show ?thesis by simp
qed

section \<open>The requests of an update of the OAuth API scope resource\<close>
















section \<open>The status of a user\<close>

lemmas status_defs = statusActive_def userStatusPasswordExpired_def userStatusRecovery_def
  userStatusStaged_def userStatusSuspended_def userStatusDeprovisioned_def

lemma Get_SetStr: "Get (SetStr d k v) k' = (if k' = k then v else Get d k')"
  by (simp add: Get_def SetStr_def)

lemma Get_setNonPrimitives:
  "k \<notin> fst ` set m \<Longrightarrow> Get (foldl (\<lambda>acc (k, v). SetStr acc k v) d m) k = Get d k"
  by (induction m arbitrary: d) (auto simp: Get_SetStr)

lemma Get_setAdminRoles: "Get (fst (snd (setAdminRoles d client h))) k = Get d k"
  by (simp add: setAdminRoles_def send_def Get_def split: option.splits)

lemma Get_setGroups: "Get (fst (snd (setGroups d client h))) k = Get d k"
  by (simp add: setGroups_def send_def Get_def split: option.splits)

lemma read_status:
  assumes "r_err (client h (GetUserReq (user_id d))) = None"
    and "\<not> (case r_resp (client h (GetUserReq (user_id d))) of
             None \<Rightarrow> False | Some resp \<Rightarrow> is404 (StatusCode resp))"
    and "''status'' \<notin> fst ` set (fst (flattenUser (r_user (client h (GetUserReq (user_id d))))))"
  shows "Get (fst (snd (resourceUserRead client flattenUser d h))) ''status''
    = mapStatus (Status (r_user (client h (GetUserReq (user_id d)))))"
proof -
  let ?u = "r_user (client h (GetUserReq (user_id d)))"
  let ?d2 = "SetStr (SetStr d ''status'' (mapStatus (Status ?u))) ''raw_status'' (Status ?u)"
  let ?d3 = "foldl (\<lambda>acc (k, v). SetStr acc k v) ?d2 (fst (flattenUser ?u))"
  let ?h1 = "h @ [GetUserReq (user_id d)]"
  have d2: "Get ?d2 ''status'' = mapStatus (Status ?u)"
    by (simp add: Get_SetStr)
  have d3: "Get ?d3 ''status'' = mapStatus (Status ?u)"
    using assms(3) d2 by (simp add: Get_setNonPrimitives)
  obtain e4 d4 h4 where s4: "setAdminRoles ?d3 client ?h1 = (e4, d4, h4)"
    by (cases "setAdminRoles ?d3 client ?h1") auto
  have d4: "Get d4 ''status'' = mapStatus (Status ?u)"
    using Get_setAdminRoles [of ?d3 client ?h1 "''status''"] s4 d3 by simp
  have d5: "Get (fst (snd (setGroups d4 client h4))) ''status'' = mapStatus (Status ?u)"
    using d4 by (simp add: Get_setGroups)
  show ?thesis
    using assms(1,2) d2 d3 d4 d5 s4
    by (cases "flattenUser ?u")
       (auto simp: resourceUserRead_def send_def orReturn_def setNonPrimitives_def Let_def
          split: option.splits)
qed

lemma mapStatus_idem: "mapStatus (mapStatus s) = mapStatus s"
  by (simp add: mapStatus_def status_defs)

text \<open>
  C10. \<open>mapStatus\<close> is idempotent; it maps \<open>PASSWORD_EXPIRED\<close> and \<open>RECOVERY\<close> to
  \<open>ACTIVE\<close> and leaves every other status as it is. When \<open>resourceUserRead\<close> gets the
  user (no error, no 404) and the flattened user has no \<open>status\<close> key, the status it
  leaves in the resource data is \<open>mapStatus\<close> of the user's status, a fixed point of
  \<open>mapStatus\<close>, however the rest of the read goes.
\<close>

theorem C10_mapStatus_idempotent:
  "mapStatus (mapStatus s) = mapStatus s
   \<and> mapStatus userStatusPasswordExpired = statusActive
   \<and> mapStatus userStatusRecovery = statusActive
   \<and> mapStatus s
       = (if s = userStatusPasswordExpired \<or> s = userStatusRecovery then statusActive else s)
   \<and> (r_err (client h (GetUserReq (user_id d))) = None
       \<and> \<not> (case r_resp (client h (GetUserReq (user_id d))) of
               None \<Rightarrow> False | Some resp \<Rightarrow> is404 (StatusCode resp))
       \<and> ''status'' \<notin> fst ` set (fst (flattenUser (r_user (client h (GetUserReq (user_id d))))))
      \<longrightarrow> Get (fst (snd (resourceUserRead client flattenUser d h))) ''status''
            = mapStatus (Status (r_user (client h (GetUserReq (user_id d)))))
        \<and> mapStatus (Get (fst (snd (resourceUserRead client flattenUser d h))) ''status'')
            = Get (fst (snd (resourceUserRead client flattenUser d h))) ''status'')"
proof -
  have a: "mapStatus (mapStatus s) = mapStatus s" by (rule mapStatus_idem)
  have b: "mapStatus userStatusPasswordExpired = statusActive"
    and c: "mapStatus userStatusRecovery = statusActive"
    by (simp_all add: mapStatus_def)
  have e: "mapStatus s
       = (if s = userStatusPasswordExpired \<or> s = userStatusRecovery then statusActive else s)"
    by (simp add: mapStatus_def)
  show ?thesis
    using a b c e read_status [of client h d flattenUser]
    by (simp add: mapStatus_idem)
qed

lemmas user_defs = resourceUserRead_def send_def orReturn_def setNonPrimitives_def
  setAdminRoles_def setGroups_def okReply_def okClient_def expiredClient_def
  flattenProfile_def exampleUserData_def noValues_def is404_def Get_def SetStr_def
  mapStatus_def status_defs

theorem C10_mapStatus_idempotent_witness:
  "r_err (expiredClient [] (GetUserReq (user_id exampleUserData))) = None
   \<and> \<not> (case r_resp (expiredClient [] (GetUserReq (user_id exampleUserData))) of
               None \<Rightarrow> False | Some resp \<Rightarrow> is404 (StatusCode resp))
   \<and> ''status'' \<notin> fst ` set (fst (flattenProfile
         (r_user (expiredClient [] (GetUserReq (user_id exampleUserData))))))
   \<and> Get (fst (snd (resourceUserRead expiredClient flattenProfile exampleUserData [])))
        ''status'' = ''ACTIVE''
   \<and> mapStatus (Get (fst (snd (resourceUserRead expiredClient flattenProfile
        exampleUserData []))) ''status'')
      = Get (fst (snd (resourceUserRead expiredClient flattenProfile exampleUserData [])))
          ''status''"
proof -
  have h1: "r_err (expiredClient [] (GetUserReq (user_id exampleUserData))) = None"
    by (simp add: expiredClient_def okReply_def)
  have h2: "\<not> (case r_resp (expiredClient [] (GetUserReq (user_id exampleUserData))) of
               None \<Rightarrow> False | Some resp \<Rightarrow> is404 (StatusCode resp))"
    by (simp add: expiredClient_def okReply_def is404_def)
  have h3: "''status'' \<notin> fst ` set (fst (flattenProfile
         (r_user (expiredClient [] (GetUserReq (user_id exampleUserData))))))"
    by (simp add: expiredClient_def okReply_def flattenProfile_def)
  have s: "mapStatus (Status (r_user (expiredClient [] (GetUserReq (user_id exampleUserData)))))
      = ''ACTIVE''"
    by (simp add: expiredClient_def okReply_def mapStatus_def status_defs)
  note t = C10_mapStatus_idempotent [of "''RECOVERY''" expiredClient "[]" exampleUserData flattenProfile]
  note imp = t [THEN conjunct2, THEN conjunct2, THEN conjunct2, THEN conjunct2]
  note r = imp [THEN mp, OF conjI [OF h1 conjI [OF h2 h3]]]
  from r s have g: "Get (fst (snd (resourceUserRead expiredClient flattenProfile
      exampleUserData []))) ''status'' = ''ACTIVE''"
    by simp
  from h1 h2 h3 g r show ?thesis by (intro conjI) (elim conjE, assumption)+
qed

section \<open>Updating and deleting a user\<close>

text \<open>
  C8. When the configured status is \<open>STAGED\<close> and the status has changed,
  \<open>resourceUserUpdate\<close> returns its error at once: no request is issued and the resource
  data are as they were.
\<close>

theorem C8_update_to_staged_rejected:
  assumes "Get d ''status'' = userStatusStaged" and "HasChange d ''status''"
  shows "resourceUserUpdate client flattenUser d h =
    (Some (''[ERROR] Okta will not allow a user to be updated to STAGED. ''
       @ ''Can set to STAGED on user creation only''), d, h)"
  using assms by (simp add: resourceUserUpdate_def)

theorem C8_update_to_staged_rejected_witness:
  "Get exampleUserData ''status'' = userStatusStaged \<and> HasChange exampleUserData ''status''
   \<and> resourceUserUpdate okClient flattenProfile exampleUserData [] =
    (Some (''[ERROR] Okta will not allow a user to be updated to STAGED. ''
       @ ''Can set to STAGED on user creation only''), exampleUserData, [])"
proof -
  have h1: "Get exampleUserData ''status'' = userStatusStaged"
    by (simp add: Get_def exampleUserData_def noValues_def userStatusStaged_def)
  have h2: "HasChange exampleUserData ''status''"
    by (simp add: HasChange_def exampleUserData_def noValues_def)
  from C8_update_to_staged_rejected [OF h1 h2, of okClient flattenProfile "[]"] h1 h2 show ?thesis
    by (intro conjI)
qed

text \<open>
  C9. \<open>ensureUserDelete\<close> issues one \<open>DeactivateOrDeleteUser\<close> request for a user that
  is \<open>DEPROVISIONED\<close> and two for a user of any other status, when these requests
  succeed; when a request fails it returns the error at once: a failing first request is
  the only one, and a failing second request is the last.
\<close>

theorem C9_ensureUserDelete_passes:
  "(status = userStatusDeprovisioned
      \<and> r_err (client h (DeactivateOrDeleteUserReq uid)) = None
     \<longrightarrow> ensureUserDelete uid status client h = (None, h @ [DeactivateOrDeleteUserReq uid]))
   \<and> (status \<noteq> userStatusDeprovisioned
      \<and> r_err (client h (DeactivateOrDeleteUserReq uid)) = None
      \<and> r_err (client (h @ [DeactivateOrDeleteUserReq uid]) (DeactivateOrDeleteUserReq uid))
          = None
     \<longrightarrow> ensureUserDelete uid status client h
          = (None, h @ [DeactivateOrDeleteUserReq uid, DeactivateOrDeleteUserReq uid]))
   \<and> (r_err (client h (DeactivateOrDeleteUserReq uid)) = Some e
     \<longrightarrow> ensureUserDelete uid status client h
          = (Some (''failed to deprovision or delete user from Okta: '' @ e),
             h @ [DeactivateOrDeleteUserReq uid]))
   \<and> (status \<noteq> userStatusDeprovisioned
      \<and> r_err (client h (DeactivateOrDeleteUserReq uid)) = None
      \<and> r_err (client (h @ [DeactivateOrDeleteUserReq uid]) (DeactivateOrDeleteUserReq uid))
          = Some e
     \<longrightarrow> ensureUserDelete uid status client h
          = (Some (''failed to deprovision or delete user from Okta: '' @ e),
             h @ [DeactivateOrDeleteUserReq uid, DeactivateOrDeleteUserReq uid]))"
proof (intro conjI impI)
  assume "status = userStatusDeprovisioned
      \<and> r_err (client h (DeactivateOrDeleteUserReq uid)) = None"
  then show "ensureUserDelete uid status client h = (None, h @ [DeactivateOrDeleteUserReq uid])"
    by (simp add: ensureUserDelete_def send_def)
next
  assume "status \<noteq> userStatusDeprovisioned
      \<and> r_err (client h (DeactivateOrDeleteUserReq uid)) = None
      \<and> r_err (client (h @ [DeactivateOrDeleteUserReq uid]) (DeactivateOrDeleteUserReq uid))
          = None"
  then show "ensureUserDelete uid status client h
      = (None, h @ [DeactivateOrDeleteUserReq uid, DeactivateOrDeleteUserReq uid])"
    by (simp add: ensureUserDelete_def send_def)
next
  assume "r_err (client h (DeactivateOrDeleteUserReq uid)) = Some e"
  then show "ensureUserDelete uid status client h
      = (Some (''failed to deprovision or delete user from Okta: '' @ e),
         h @ [DeactivateOrDeleteUserReq uid])"
    by (simp add: ensureUserDelete_def send_def)
next
  assume "status \<noteq> userStatusDeprovisioned
      \<and> r_err (client h (DeactivateOrDeleteUserReq uid)) = None
      \<and> r_err (client (h @ [DeactivateOrDeleteUserReq uid]) (DeactivateOrDeleteUserReq uid))
          = Some e"
  then show "ensureUserDelete uid status client h
      = (Some (''failed to deprovision or delete user from Okta: '' @ e),
         h @ [DeactivateOrDeleteUserReq uid, DeactivateOrDeleteUserReq uid])"
    by (simp add: ensureUserDelete_def send_def)
qed

theorem C9_ensureUserDelete_passes_witness:
  "ensureUserDelete ''00u1'' ''DEPROVISIONED'' okClient []
     = (None, [DeactivateOrDeleteUserReq ''00u1''])
   \<and> ensureUserDelete ''00u1'' ''ACTIVE'' okClient []
     = (None, [DeactivateOrDeleteUserReq ''00u1'', DeactivateOrDeleteUserReq ''00u1''])
   \<and> ensureUserDelete ''00u1'' ''ACTIVE'' failDeleteClient []
     = (Some (''failed to deprovision or delete user from Okta: '' @ ''E0000007''),
        [DeactivateOrDeleteUserReq ''00u1''])
   \<and> ensureUserDelete ''00u1'' ''ACTIVE'' failSecondDeleteClient []
     = (Some (''failed to deprovision or delete user from Okta: '' @ ''E0000007''),
        [DeactivateOrDeleteUserReq ''00u1'', DeactivateOrDeleteUserReq ''00u1''])"
proof -
  have ok: "r_err (okClient hh rq) = None" for hh rq
    by (simp add: okClient_def okReply_def)
  have s1: "''DEPROVISIONED'' = userStatusDeprovisioned"
    and s2: "''ACTIVE'' \<noteq> userStatusDeprovisioned"
    by (simp_all add: userStatusDeprovisioned_def)
  have f: "r_err (failDeleteClient [] (DeactivateOrDeleteUserReq ''00u1'')) = Some ''E0000007''"
    by (simp add: failDeleteClient_def okReply_def)
  have f1: "r_err (failSecondDeleteClient [] (DeactivateOrDeleteUserReq ''00u1'')) = None"
    and f2: "r_err (failSecondDeleteClient ([] @ [DeactivateOrDeleteUserReq ''00u1''])
        (DeactivateOrDeleteUserReq ''00u1'')) = Some ''E0000007''"
    by (simp_all add: failSecondDeleteClient_def okReply_def)
  note a = C9_ensureUserDelete_passes [of "''DEPROVISIONED''" okClient "[]" "''00u1''" "''x''",
      THEN conjunct1, THEN mp, OF conjI [OF s1 ok]]
  note b = C9_ensureUserDelete_passes [of "''ACTIVE''" okClient "[]" "''00u1''" "''x''",
      THEN conjunct2, THEN conjunct1, THEN mp, OF conjI [OF s2 conjI [OF ok ok]]]
  note c = C9_ensureUserDelete_passes [of "''ACTIVE''" failDeleteClient "[]" "''00u1''" "''E0000007''",
      THEN conjunct2, THEN conjunct2, THEN conjunct1, THEN mp, OF f]
  note d = C9_ensureUserDelete_passes [of "''ACTIVE''" failSecondDeleteClient "[]" "''00u1''" "''E0000007''",
      THEN conjunct2, THEN conjunct2, THEN conjunct2, THEN mp, OF conjI [OF s2 conjI [OF f1 f2]]]
  from a b c d show ?thesis by simp
qed

section \<open>Collecting the pages of users\<close>

lemma collect_last:
  "r_err (client h (ListUsersReq qp)) = None
    \<Longrightarrow> GetAfterParam (r_resp (client h (ListUsersReq qp))) = []
    \<Longrightarrow> collectUsers client results qp h
      = Some (None, results @ r_users (client h (ListUsersReq qp)), qp, h @ [ListUsersReq qp])"
  by (subst collectUsers.simps) (simp add: send_def)

lemma collect_next:
  "r_err (client h (ListUsersReq qp)) = None
    \<Longrightarrow> GetAfterParam (r_resp (client h (ListUsersReq qp))) \<noteq> []
    \<Longrightarrow> collectUsers client results qp h
      = collectUsers client (results @ r_users (client h (ListUsersReq qp)))
          (qp\<lparr>After := GetAfterParam (r_resp (client h (ListUsersReq qp)))\<rparr>)
          (h @ [ListUsersReq qp])"
  by (subst collectUsers.simps) (simp add: send_def)

lemma collect_error:
  "r_err (client h (ListUsersReq qp)) = Some e
    \<Longrightarrow> collectUsers client results qp h = Some (Some e, results, qp, h @ [ListUsersReq qp])"
  by (subst collectUsers.simps) (simp add: send_def)

text \<open>
  C6. When the remote side serves a finite sequence of pages along the requests of
  \<open>collectUsers\<close>, the run returns without error, the accumulator is what it was
  followed by the users of all pages in page order, and the requests issued are one per
  page, each after the first carrying the \<open>after\<close> parameter of the response before it;
  the run ends at the response that carries none.
\<close>

theorem C6_collectUsers_concatenates_pages:
  assumes "servesPages client h qp pages"
  shows "collectUsers client results qp h =
    Some (None, results @ concat (map fst pages),
          foldl (\<lambda>q a. q\<lparr>After := a\<rparr>) qp (butlast (map snd pages)),
          h @ pageRequests qp (map snd pages))"
  using assms
proof (induction pages arbitrary: h qp results)
  case Nil
  then show ?case by simp
next
  case (Cons p pages)
  obtain us a where p: "p = (us, a)" by (cases p)
  show ?case
  proof (cases "pages = []")
    case True
    with Cons.prems p show ?thesis
      by (simp add: collect_last)
  next
    case False
    with Cons.prems p
    have ok: "r_err (client h (ListUsersReq qp)) = None"
      and us: "r_users (client h (ListUsersReq qp)) = us"
      and a: "GetAfterParam (r_resp (client h (ListUsersReq qp))) = a"
      and ne: "a \<noteq> []"
      and rest: "servesPages client (h @ [ListUsersReq qp]) (qp\<lparr>After := a\<rparr>) pages"
      by simp_all
    have "collectUsers client results qp h
        = collectUsers client (results @ us) (qp\<lparr>After := a\<rparr>) (h @ [ListUsersReq qp])"
      using collect_next [of client h qp results] ok us a ne by simp
    also have "\<dots> = Some (None, (results @ us) @ concat (map fst pages),
          foldl (\<lambda>q a. q\<lparr>After := a\<rparr>) (qp\<lparr>After := a\<rparr>) (butlast (map snd pages)),
          (h @ [ListUsersReq qp]) @ pageRequests (qp\<lparr>After := a\<rparr>) (map snd pages))"
      by (rule Cons.IH [OF rest])
    finally show ?thesis
      using False p by simp
  qed
qed

text \<open>
  C7. When within \<open>n\<close> requests the remote side answers with an error or with a
  response that carries no \<open>after\<close> parameter, \<open>collectUsers\<close> returns, having issued
  at least one and at most \<open>n\<close> requests: the number of pages left bounds the recursion.
\<close>

theorem C7_collectUsers_terminates:
  assumes "stopsWithin client h qp n"
  shows "\<exists>e res qp' h'. collectUsers client results qp h = Some (e, res, qp', h')
      \<and> length h < length h' \<and> length h' \<le> length h + n"
  using assms
proof (induction n arbitrary: h qp results)
  case 0
  then show ?case by simp
next
  case (Suc n)
  show ?case
  proof (cases "r_err (client h (ListUsersReq qp))")
    case (Some e)
    then show ?thesis by (simp add: collect_error)
  next
    case None
    show ?thesis
    proof (cases "GetAfterParam (r_resp (client h (ListUsersReq qp))) = []")
      case True
      with None show ?thesis by (simp add: collect_last)
    next
      case False
      let ?a = "GetAfterParam (r_resp (client h (ListUsersReq qp)))"
      from Suc.prems None False
      have "stopsWithin client (h @ [ListUsersReq qp]) (qp\<lparr>After := ?a\<rparr>) n"
        by simp
      from Suc.IH [OF this, of "results @ r_users (client h (ListUsersReq qp))"]
      obtain e res qp' h' where
        "collectUsers client (results @ r_users (client h (ListUsersReq qp)))
           (qp\<lparr>After := ?a\<rparr>) (h @ [ListUsersReq qp]) = Some (e, res, qp', h')"
        and "length (h @ [ListUsersReq qp]) < length h'"
        and "length h' \<le> length (h @ [ListUsersReq qp]) + n"
        by blast
      with None False show ?thesis
        by (simp add: collect_next)
    qed
  qed
qed

lemmas page_defs = twoPagesClient_def okReply_def exampleParams_def examplePages_def
  GetAfterParam_def

theorem C6_collectUsers_concatenates_pages_witness:
  "servesPages twoPagesClient [] exampleParams examplePages
   \<and> collectUsers twoPagesClient [] exampleParams [] =
      Some (None,
        [\<lparr>UserId = ''00u1'', Status = ''ACTIVE'', Profile = []\<rparr>,
         \<lparr>UserId = ''00u2'', Status = ''STAGED'', Profile = []\<rparr>],
        exampleParams\<lparr>After := ''00u1''\<rparr>,
        [ListUsersReq exampleParams, ListUsersReq (exampleParams\<lparr>After := ''00u1''\<rparr>)])"
proof -
  have s: "servesPages twoPagesClient [] exampleParams examplePages"
    by (simp add: page_defs)
  from C6_collectUsers_concatenates_pages [OF s, of "[]"] s show ?thesis
    by (simp add: examplePages_def)
qed

theorem C7_collectUsers_terminates_witness:
  "stopsWithin twoPagesClient [] exampleParams 2
   \<and> (\<exists>e res qp' h'. collectUsers twoPagesClient [] exampleParams [] = Some (e, res, qp', h')
        \<and> length ([]::request list) < length h' \<and> length h' \<le> length ([]::request list) + 2)"
proof -
  have s: "stopsWithin twoPagesClient [] exampleParams 2"
    by (simp add: page_defs numeral_2_eq_2)
  from C7_collectUsers_terminates [OF s, of "[]"] s show ?thesis
    by (intro conjI)
qed

section \<open>The order of the requests of creating a user\<close>

lemma read_requests_stage:
  assumes "resourceUserRead client flattenUser d h = (e, d', h')"
  shows "\<exists>rd. h' = h @ rd \<and> list_all (\<lambda>rq. stage rq = 4) rd"
proof -
  have "\<exists>rd. snd (snd (resourceUserRead client flattenUser d h)) = h @ rd
      \<and> list_all (\<lambda>rq. stage rq = 4) rd"
    by (cases "flattenUser (r_user (client h (GetUserReq (user_id d))))")
       (auto simp: resourceUserRead_def send_def orReturn_def setNonPrimitives_def
          setAdminRoles_def setGroups_def Let_def split: option.splits)
  with assms show ?thesis by simp
qed

lemma Get_user_id: "Get (d\<lparr>user_id := u\<rparr>) k = Get d k"
  by (simp add: Get_def)

lemma roles_step:
  "(if convertInterfaceToStringSetNullable (admin_roles (current (d\<lparr>user_id := u\<rparr>))) \<noteq> None
    then (case assignAdminRolesToUser uid
                 (convertInterfaceToStringSetNullable (admin_roles (current (d\<lparr>user_id := u\<rparr>))))
                 client h1 of
            (e, h2) \<Rightarrow> (e, d1, h2))
    else (None, d1, h1))
   = ((if rolesStep d uid = [] then None else r_err (client h1 (hd (rolesStep d uid)))),
      d1, h1 @ rolesStep d uid)"
  by (simp add: rolesStep_def assignAdminRolesToUser_def send_def
      convertInterfaceToStringSetNullable_def convertInterfaceToStringSet_def)

lemma groups_step:
  "(if group_memberships (current (d\<lparr>user_id := u\<rparr>)) \<noteq> None
    then (case assignGroupsToUser uid
                 (convertInterfaceToStringSetNullable
                    (slice (group_memberships (current (d\<lparr>user_id := u\<rparr>)))))
                 client h2 of
            (e, h3) \<Rightarrow> (e, d1, h3))
    else (None, d1, h2))
   = ((if groupsStep d uid = [] then None else r_err (client h2 (hd (groupsStep d uid)))),
      d1, h2 @ groupsStep d uid)"
  by (simp add: groupsStep_def assignGroupsToUser_def send_def)

lemma status_step:
  "(if Get (d\<lparr>user_id := u\<rparr>) ''status'' = userStatusSuspended
       \<or> Get (d\<lparr>user_id := u\<rparr>) ''status'' = userStatusDeprovisioned
    then (case updateUserStatus uid (Get (d\<lparr>user_id := u\<rparr>) ''status'') client h3 of
            (e, h4) \<Rightarrow> (wrapErr p e, d1, h4))
    else (None, d1, h3))
   = ((if statusStep d uid = [] then None
       else wrapErr p (r_err (client h3 (hd (statusStep d uid))))),
      d1, h3 @ statusStep d uid)"
  by (simp add: statusStep_def updateUserStatus_def send_def Get_user_id)

lemma orReturn_None: "orReturn (None, d, h) K = K d h"
  and orReturn_Some: "orReturn (Some x, d, h) K = (Some x, d, h)"
  by (simp_all add: orReturn_def)

lemma stage_create: "stage (createUserRequest d) = 0"
  by (simp add: createUserRequest_def Let_def)

lemma stopsAtFailure_read:
  "list_all (\<lambda>rq. stage rq = 4) rd \<Longrightarrow> stopsAtFailure client h rd"
  by (induction rd arbitrary: h) auto

lemma stage_read:
  "list_all (\<lambda>rq. stage rq = 4) rd \<Longrightarrow> map stage rd = replicate (length rd) 4"
  by (induction rd) auto

lemma filter_stage_read:
  "list_all (\<lambda>rq. stage rq = 4) rd \<Longrightarrow> filter (\<lambda>rq. stage rq < 4) rd = []"
  by (induction rd) auto

lemma sorted_replicate_from: "a \<le> b \<Longrightarrow> sorted (a # replicate n b)"
  by (induction n) auto

lemmas step_defs = rolesStep_def groupsStep_def statusStep_def

lemma allOk_append:
  "allOk client h (xs @ ys) \<longleftrightarrow> allOk client h xs \<and> allOk client (h @ xs) ys"
  by (induction xs arbitrary: h) auto

lemma stopsAtFailure_append:
  "allOk client h xs \<Longrightarrow> stopsAtFailure client h (xs @ ys) = stopsAtFailure client (h @ xs) ys"
  by (induction xs arbitrary: h) auto

lemma allOk_filter:
  "list_all (\<lambda>rq. stage rq = 4) rd
    \<Longrightarrow> filter (\<lambda>rq. stage rq < 4) (xs @ rd) = filter (\<lambda>rq. stage rq < 4) xs"
  by (simp add: filter_stage_read)

lemma steps_sorted: "sorted (map stage (createSteps d uid))"
  by (simp add: createSteps_def step_defs stage_create)

lemma steps_distinct: "distinct (map stage (createSteps d uid))"
  by (simp add: createSteps_def step_defs stage_create)

lemma steps_creating: "filter (\<lambda>rq. stage rq < 4) (createSteps d uid) = createSteps d uid"
  by (simp add: createSteps_def step_defs stage_create)

lemma steps_stage: "rq \<in> set (createSteps d uid) \<Longrightarrow> stage rq < 4"
  by (auto simp: createSteps_def step_defs stage_create split: if_splits)

lemma roles_short: "length (rolesStep d uid) \<le> 1"
  and groups_short: "length (groupsStep d uid) \<le> 1"
  and status_short: "length (statusStep d uid) \<le> 1"
  by (simp_all add: step_defs)

lemma step_ok:
  "length X \<le> 1 \<Longrightarrow> (if X = [] then None else r_err (client h (hd X))) = None
    \<Longrightarrow> allOk client h X"
  by (cases X) (auto split: if_splits)

lemma step_ok_wrapped:
  "length X \<le> 1 \<Longrightarrow> (if X = [] then None else wrapErr p (r_err (client h (hd X)))) = None
    \<Longrightarrow> allOk client h X"
  by (cases X) (auto simp: wrapErr_def split: if_splits)

lemma step_failed:
  "length X \<le> 1 \<Longrightarrow> (if X = [] then None else E) = Some x \<Longrightarrow> X = [hd X]"
  by (cases X) (auto split: if_splits)

lemma property_failed:
  assumes steps: "createSteps d (UserId (r_user (client h (createUserRequest d)))) = xs @ x # ys"
    and ok: "allOk client h xs"
    and e: "e \<noteq> None"
  shows "createProperty client d h e (xs @ [x])"
proof -
  let ?steps = "createSteps d (UserId (r_user (client h (createUserRequest d))))"
  have first: "\<exists>rest. xs @ [x] = createUserRequest d # rest"
  proof (cases xs)
    case Nil
    with steps show ?thesis by (simp add: createSteps_def)
  next
    case (Cons y zs)
    with steps show ?thesis by (simp add: createSteps_def)
  qed
  have "sorted (map stage (xs @ x # ys))"
    using steps_sorted [of d "UserId (r_user (client h (createUserRequest d)))"] steps by simp
  then have srt: "sorted (map stage (xs @ [x]))"
    by (simp add: sorted_append)
  have "distinct (map stage (xs @ x # ys))"
    using steps_distinct [of d "UserId (r_user (client h (createUserRequest d)))"] steps by simp
  then have "distinct (map stage (xs @ [x]))"
    by auto
  then have dst: "distinct (filter (\<lambda>s. s < 4) (map stage (xs @ [x])))"
    by (rule distinct_filter)
  have stp: "stopsAtFailure client h (xs @ [x])"
    using ok by (simp add: stopsAtFailure_append)
  from first srt dst stp e show ?thesis
    unfolding createProperty_def by blast
qed

lemma property_read:
  assumes ok: "allOk client h (createSteps d (UserId (r_user (client h (createUserRequest d)))))"
    and rd: "list_all (\<lambda>rq. stage rq = 4) rd"
  shows "createProperty client d h e
    (createSteps d (UserId (r_user (client h (createUserRequest d)))) @ rd)"
proof -
  let ?steps = "createSteps d (UserId (r_user (client h (createUserRequest d))))"
  have first: "\<exists>rest. ?steps @ rd = createUserRequest d # rest"
    by (simp add: createSteps_def)
  have s1: "sorted (map stage rd)"
    using rd by (simp add: stage_read)
  have s2: "\<forall>a \<in> set ?steps. stage a \<le> 4"
    using steps_stage [of _ d] by (auto simp: less_imp_le)
  have s3: "\<forall>b \<in> set rd. stage b = 4"
    using rd by (simp add: list_all_iff)
  have srt: "sorted (map stage (?steps @ rd))"
    using steps_sorted [of d] s1 s2 s3 by (auto simp: sorted_append)
  have "filter (\<lambda>s. s < 4) (map stage rd) = []"
    using rd by (simp add: stage_read)
  then have dst: "distinct (filter (\<lambda>s. s < 4) (map stage (?steps @ rd)))"
    using steps_distinct [of d] by (simp add: distinct_filter)
  have stp: "stopsAtFailure client h (?steps @ rd)"
    using ok rd by (simp add: stopsAtFailure_append stopsAtFailure_read)
  have flt: "filter (\<lambda>rq. stage rq < 4) (?steps @ rd) = ?steps"
    using rd by (simp add: filter_stage_read steps_creating)
  from first srt dst stp flt show ?thesis
    unfolding createProperty_def by blast
qed

lemma create_cases:
  assumes run: "resourceUserCreate client flattenUser d h = (e, d', h')"
  shows "\<exists>new. h' = h @ new \<and> createProperty client d h e new"
proof -
  let ?c = "createUserRequest d"
  let ?h1 = "h @ [?c]"
  let ?uid = "UserId (r_user (client h ?c))"
  let ?d1 = "d\<lparr>user_id := ?uid\<rparr>"
  let ?A = "rolesStep d ?uid"
  let ?G = "groupsStep d ?uid"
  let ?S = "statusStep d ?uid"
  let ?eA = "if ?A = [] then None else r_err (client ?h1 (hd ?A))"
  let ?eG = "if ?G = [] then None else r_err (client (?h1 @ ?A) (hd ?G))"
  let ?eS = "if ?S = [] then None
    else wrapErr ''[ERROR] Error Updating Status for User: ''
           (r_err (client ((?h1 @ ?A) @ ?G) (hd ?S)))"
  note defs = resourceUserCreate_def send_def Let_def prod.case option.case
    roles_step groups_step status_step orReturn_None orReturn_Some
  have steps: "createSteps d ?uid = [?c] @ ?A @ ?G @ ?S"
    by (simp add: createSteps_def)
  show ?thesis
  proof (cases "r_err (client h ?c)")
    case (Some x)
    from run have "(Some (''[ERROR] Error Creating User from Okta: '' @ x), d, ?h1) = (e, d', h')"
      by (simp only: defs Some)
    then have e: "e \<noteq> None" and h': "h' = h @ ([] @ [?c])"
      by auto
    have "createProperty client d h e ([] @ [?c])"
      by (rule property_failed [where ys = "?A @ ?G @ ?S"]) (simp_all add: steps e)
    with h' show ?thesis by blast
  next
    case r0: None
    have ok1: "allOk client h [?c]"
      using r0 by simp
    show ?thesis
    proof (cases ?eA)
      case (Some x)
      from run have "(Some x, ?d1, ?h1 @ ?A) = (e, d', h')"
        by (simp only: defs r0 Some)
      then have e: "e \<noteq> None" and h': "h' = h @ ([?c] @ ?A)"
        by auto
      have A: "?A = [hd ?A]"
        by (rule step_failed [where X = "?A", OF roles_short Some])
      have "createProperty client d h e ([?c] @ [hd ?A])"
        by (rule property_failed [where ys = "?G @ ?S"]) (use A ok1 e in \<open>simp_all add: steps\<close>)
      with h' A show ?thesis by metis
    next
      case eA: None
      have ok2: "allOk client h ([?c] @ ?A)"
        using r0 step_ok [where X = "?A" and client = client and h = "?h1", OF roles_short eA] by (simp add: allOk_append)
      show ?thesis
      proof (cases ?eG)
        case (Some x)
        from run have "(Some x, ?d1, (?h1 @ ?A) @ ?G) = (e, d', h')"
          by (simp only: defs r0 eA Some)
        then have e: "e \<noteq> None" and h': "h' = h @ (([?c] @ ?A) @ ?G)"
          by auto
        have G: "?G = [hd ?G]"
          by (rule step_failed [where X = "?G", OF groups_short Some])
        have "createProperty client d h e (([?c] @ ?A) @ [hd ?G])"
          by (rule property_failed [where ys = "?S"]) (use G ok2 e in \<open>simp_all add: steps\<close>)
        with h' G show ?thesis by metis
      next
        case eG: None
        have ok3: "allOk client h (([?c] @ ?A) @ ?G)"
          using ok2 step_ok [where X = "?G" and client = client and h = "?h1 @ ?A", OF groups_short eG] by (simp add: allOk_append)
        show ?thesis
        proof (cases ?eS)
          case (Some x)
          from run have "(Some x, ?d1, ((?h1 @ ?A) @ ?G) @ ?S) = (e, d', h')"
            by (simp only: defs r0 eA eG Some)
          then have e: "e \<noteq> None" and h': "h' = h @ ((([?c] @ ?A) @ ?G) @ ?S)"
            by auto
          have S: "?S = [hd ?S]"
            by (rule step_failed [where X = "?S", OF status_short Some])
          have "createProperty client d h e ((([?c] @ ?A) @ ?G) @ [hd ?S])"
            by (rule property_failed [where ys = "[]"]) (use S ok3 e in \<open>simp_all add: steps\<close>)
          with h' S show ?thesis by metis
        next
          case eS: None
          have ok4: "allOk client h (createSteps d ?uid)"
            using ok3 step_ok_wrapped [where X = "?S" and client = client and h = "(?h1 @ ?A) @ ?G", OF status_short eS] by (simp add: allOk_append steps)
          from run
          have "resourceUserRead client flattenUser ?d1 (((?h1 @ ?A) @ ?G) @ ?S) = (e, d', h')"
            by (simp only: defs r0 eA eG eS)
          from read_requests_stage [OF this] obtain rd
            where h': "h' = (((?h1 @ ?A) @ ?G) @ ?S) @ rd"
              and rd: "list_all (\<lambda>rq. stage rq = 4) rd"
            by blast
          have "createProperty client d h e (createSteps d ?uid @ rd)"
            using ok4 rd by (rule property_read)
          moreover have "h' = h @ (createSteps d ?uid @ rd)"
            using h' by (simp add: steps)
          ultimately show ?thesis by blast
        qed
      qed
    qed
  qed
qed

text \<open>
  C4. The requests of every run of \<open>resourceUserCreate\<close> come in the fixed order of the
  source: the creation first, then the assignment of admin roles, then the assignment of
  groups, then the status update, then whatever the final read issues; no stage is
  issued before an earlier one or twice, and no request follows a creating request that
  failed. A run that returns without error has issued, before the read, exactly the
  creation, the role assignment when \<open>admin_roles\<close> is not empty, the group assignment
  when \<open>group_memberships\<close> is set, and the status update when the status is
  \<open>SUSPENDED\<close> or \<open>DEPROVISIONED\<close>. Each helper that assigns or updates is one
  operation of the remote side.
\<close>

theorem C4_create_steps_in_order:
  assumes run: "resourceUserCreate client flattenUser d h = (e, d', h')"
  shows "take (length h) h' = h
    \<and> (\<exists>rest. drop (length h) h' = createUserRequest d # rest)
    \<and> sorted (map stage (drop (length h) h'))
    \<and> distinct (filter (\<lambda>s. s < 4) (map stage (drop (length h) h')))
    \<and> stopsAtFailure client h (drop (length h) h')
    \<and> (e = None \<longrightarrow> filter (\<lambda>rq. stage rq < 4) (drop (length h) h')
          = createSteps d (UserId (r_user (client h (createUserRequest d)))))"
proof -
  from create_cases [OF run] obtain new
    where h': "h' = h @ new" and p: "createProperty client d h e new"
    by blast
  have d: "drop (length h) h' = new" and t: "take (length h) h' = h"
    by (simp_all add: h')
  from p show ?thesis
    unfolding d t createProperty_def by simp
qed

lemmas create_run_defs = resourceUserCreate_def send_def okClient_def okReply_def
  failRolesClient_def orReturn_def assignAdminRolesToUser_def assignGroupsToUser_def
  updateUserStatus_def convertInterfaceToStringSetNullable_def convertInterfaceToStringSet_def
  newUserData_def Get_def SetStr_def status_defs wrapErr_def slice_def resourceUserRead_def
  setNonPrimitives_def setAdminRoles_def setGroups_def flattenProfile_def is404_def
  mapStatus_def Let_def

lemma ok_run:
  "fst (resourceUserCreate okClient flattenProfile newUserData []) = None"
  "snd (snd (resourceUserCreate okClient flattenProfile newUserData [])) = exampleCreateTrace"
  by (simp_all add: create_run_defs exampleCreateTrace_def)

lemma fail_run:
  "fst (resourceUserCreate failRolesClient flattenProfile newUserData []) = Some ''E0000006''"
  "snd (snd (resourceUserCreate failRolesClient flattenProfile newUserData []))
    = [createUserRequest newUserData, AssignAdminRolesToUserOp ''00u1'' (Some [''APP_ADMIN''])]"
  by (simp_all add: create_run_defs createUserRequest_def)


theorem C4_create_steps_in_order_witness:
  "fst (resourceUserCreate okClient flattenProfile newUserData []) = None
   \<and> snd (snd (resourceUserCreate okClient flattenProfile newUserData [])) = exampleCreateTrace
   \<and> sorted (map stage (drop (length ([]::request list)) exampleCreateTrace))
   \<and> distinct (filter (\<lambda>s. s < 4)
        (map stage (drop (length ([]::request list)) exampleCreateTrace)))
   \<and> stopsAtFailure okClient [] (drop (length ([]::request list)) exampleCreateTrace)
   \<and> filter (\<lambda>rq. stage rq < 4) (drop (length ([]::request list)) exampleCreateTrace)
       = createSteps newUserData
           (UserId (r_user (okClient [] (createUserRequest newUserData))))
   \<and> fst (resourceUserCreate failRolesClient flattenProfile newUserData [])
       = Some ''E0000006''
   \<and> snd (snd (resourceUserCreate failRolesClient flattenProfile newUserData []))
       = [createUserRequest newUserData,
          AssignAdminRolesToUserOp ''00u1'' (Some [''APP_ADMIN''])]
   \<and> stopsAtFailure failRolesClient []
        (drop (length ([]::request list))
           [createUserRequest newUserData,
            AssignAdminRolesToUserOp ''00u1'' (Some [''APP_ADMIN''])])"
proof -
  have run: "resourceUserCreate okClient flattenProfile newUserData []
      = (None, fst (snd (resourceUserCreate okClient flattenProfile newUserData [])),
         exampleCreateTrace)"
    by (simp add: prod_eq_iff ok_run)
  have bad: "resourceUserCreate failRolesClient flattenProfile newUserData []
      = (Some ''E0000006'',
         fst (snd (resourceUserCreate failRolesClient flattenProfile newUserData [])),
         [createUserRequest newUserData,
          AssignAdminRolesToUserOp ''00u1'' (Some [''APP_ADMIN''])])"
    by (simp add: prod_eq_iff fail_run)
  note c = C4_create_steps_in_order [OF run]
  note b = C4_create_steps_in_order [OF bad]
  from c have c1: "sorted (map stage (drop (length ([]::request list)) exampleCreateTrace))"
    by (elim conjE) assumption
  from c have c2: "distinct (filter (\<lambda>s. s < 4)
        (map stage (drop (length ([]::request list)) exampleCreateTrace)))"
    by (elim conjE) assumption
  from c have c3: "stopsAtFailure okClient [] (drop (length ([]::request list)) exampleCreateTrace)"
    by (elim conjE) assumption
  from c have "None = (None::error option) \<longrightarrow>
      filter (\<lambda>rq. stage rq < 4) (drop (length ([]::request list)) exampleCreateTrace)
       = createSteps newUserData
           (UserId (r_user (okClient [] (createUserRequest newUserData))))"
    by (elim conjE) assumption
  then have c4: "filter (\<lambda>rq. stage rq < 4) (drop (length ([]::request list)) exampleCreateTrace)
       = createSteps newUserData
           (UserId (r_user (okClient [] (createUserRequest newUserData))))"
    by (rule mp) (rule refl)
  from b have b1: "stopsAtFailure failRolesClient []
        (drop (length ([]::request list))
           [createUserRequest newUserData,
            AssignAdminRolesToUserOp ''00u1'' (Some [''APP_ADMIN''])])"
    by (elim conjE) assumption
  from ok_run fail_run c1 c2 c3 c4 b1 show ?thesis
    by (intro conjI)
qed

section \<open>The number of requests of a function\<close>

lemmas role_defs = DeleteAdminRole_def ListAdminRoles_def CreateAdminRole_def
  DeleteAdminRoleGroupTarget_def ListAdminRoleGroupTargets_def CreateAdminRoleGroupTarget_def

lemma role_functions_one_request:
  "issuesAtMost 1 h (snd (DeleteAdminRole nr client g r h))"
  "issuesAtMost 1 h (snd (ListAdminRoles nr client g qs h))"
  "issuesAtMost 1 h (snd (CreateAdminRole nr client g body qs h))"
  "issuesAtMost 1 h (snd (DeleteAdminRoleGroupTarget nr client g r t h))"
  "issuesAtMost 1 h (snd (ListAdminRoleGroupTargets nr client g r qs h))"
  "issuesAtMost 1 h (snd (CreateAdminRoleGroupTarget nr client g r t h))"
  by (simp_all add: role_defs issuesAtMost_def issued_def send_def Let_def split: option.split)

lemma delete_at_most_two:
  "issuesAtMost 2 h (snd (ensureUserDelete uid status client h))"
  by (simp add: ensureUserDelete_def issuesAtMost_def issued_def send_def split: option.split)

lemma delete_two:
  "status \<noteq> userStatusDeprovisioned \<Longrightarrow> r_err (client h (DeactivateOrDeleteUserReq uid)) = None
    \<Longrightarrow> length (issued h (snd (ensureUserDelete uid status client h))) = 2"
  by (simp add: ensureUserDelete_def issued_def send_def split: option.split)

lemma length_pageRequests: "length (pageRequests qp as) = length as"
  by (induction as arbitrary: qp) simp_all

lemma collect_requests:
  "servesPages client h qp pages
    \<Longrightarrow> \<exists>e res qp'. collectUsers client results qp h
          = Some (e, res, qp', h @ pageRequests qp (map snd pages))"
proof (induction pages arbitrary: h qp results)
  case Nil
  then show ?case by simp
next
  case (Cons p pages)
  obtain us a where p: "p = (us, a)" by (cases p)
  show ?case
  proof (cases "pages = []")
    case True
    with Cons.prems p show ?thesis
      by (simp add: collect_last)
  next
    case False
    with Cons.prems p
    have ok: "r_err (client h (ListUsersReq qp)) = None"
      and a: "GetAfterParam (r_resp (client h (ListUsersReq qp))) = a"
      and ne: "a \<noteq> []"
      and rest: "servesPages client (h @ [ListUsersReq qp]) (qp\<lparr>After := a\<rparr>) pages"
      by simp_all
    from Cons.IH [OF rest, of "results @ r_users (client h (ListUsersReq qp))"]
    obtain e res qp' where
      "collectUsers client (results @ r_users (client h (ListUsersReq qp)))
          (qp\<lparr>After := a\<rparr>) (h @ [ListUsersReq qp])
        = Some (e, res, qp', (h @ [ListUsersReq qp]) @ pageRequests (qp\<lparr>After := a\<rparr>) (map snd pages))"
      by blast
    with ok a ne p show ?thesis
      using collect_next [of client h qp results] by simp
  qed
qed

text \<open>
  C5, as amended. Each of the six role functions of the SDK supplement issues at most one
  HTTP request: none when the request cannot be built, one otherwise. A function of a
  resource may issue more: \<open>ensureUserDelete\<close> issues at most two requests, and exactly
  two for a user that is not \<open>DEPROVISIONED\<close> when the first succeeds, and
  \<open>collectUsers\<close> issues one request for each page the remote side serves.
\<close>

theorem C5_requests_per_function:
  "issuesAtMost 1 h (snd (DeleteAdminRole nr client g r h))
   \<and> issuesAtMost 1 h (snd (ListAdminRoles nr client g qs h))
   \<and> issuesAtMost 1 h (snd (CreateAdminRole nr client g body qs h))
   \<and> issuesAtMost 1 h (snd (DeleteAdminRoleGroupTarget nr client g r t h))
   \<and> issuesAtMost 1 h (snd (ListAdminRoleGroupTargets nr client g r qs h))
   \<and> issuesAtMost 1 h (snd (CreateAdminRoleGroupTarget nr client g r t h))
   \<and> issuesAtMost 2 h (snd (ensureUserDelete uid status client h))
   \<and> (status \<noteq> userStatusDeprovisioned
       \<and> r_err (client h (DeactivateOrDeleteUserReq uid)) = None
      \<longrightarrow> length (issued h (snd (ensureUserDelete uid status client h))) = 2)
   \<and> (servesPages client h qp pages
      \<longrightarrow> (\<exists>e res qp' h'. collectUsers client results qp h = Some (e, res, qp', h')
            \<and> h' = h @ issued h h' \<and> length (issued h h') = length pages))"
proof -
  have c: "\<exists>e res qp' h'. collectUsers client results qp h = Some (e, res, qp', h')
      \<and> h' = h @ issued h h' \<and> length (issued h h') = length pages"
    if "servesPages client h qp pages"
  proof -
    from collect_requests [OF that, of results] obtain e res qp'
      where "collectUsers client results qp h
          = Some (e, res, qp', h @ pageRequests qp (map snd pages))"
      by blast
    moreover have "issued h (h @ pageRequests qp (map snd pages))
        = pageRequests qp (map snd pages)"
      by (simp add: issued_def)
    ultimately show ?thesis by (simp add: length_pageRequests)
  qed
  show ?thesis
    apply (intro conjI impI)
    apply (rule role_functions_one_request delete_at_most_two)+
    apply (elim conjE, rule delete_two, assumption+)
    apply (rule c, assumption)
    done
qed

text \<open>
  That no single function issues more than one request fails on \<open>ensureUserDelete\<close>: for a user that is \<open>ACTIVE\<close>, on a
  remote side where every request succeeds, this one function issues two requests.
\<close>

theorem C5_counterexample:
  "snd (ensureUserDelete ''00u1'' ''ACTIVE'' okClient [])
     = [DeactivateOrDeleteUserReq ''00u1'', DeactivateOrDeleteUserReq ''00u1'']
   \<and> \<not> length (issued [] (snd (ensureUserDelete ''00u1'' ''ACTIVE'' okClient []))) \<le> 1"
  by (simp add: ensureUserDelete_def issued_def send_def okClient_def okReply_def
      userStatusDeprovisioned_def)

theorem C5_requests_per_function_witness:
  "''ACTIVE'' \<noteq> userStatusDeprovisioned
   \<and> r_err (okClient [] (DeactivateOrDeleteUserReq ''00u1'')) = None
   \<and> length (issued [] (snd (ensureUserDelete ''00u1'' ''ACTIVE'' okClient []))) = 2
   \<and> servesPages twoPagesClient [] exampleParams examplePages
   \<and> (\<exists>e res qp' h'. collectUsers twoPagesClient [] exampleParams [] = Some (e, res, qp', h')
        \<and> h' = [] @ issued [] h' \<and> length (issued [] h') = length examplePages)"
proof -
  have s2: "''ACTIVE'' \<noteq> userStatusDeprovisioned"
    by (simp add: userStatusDeprovisioned_def)
  have ok: "r_err (okClient [] (DeactivateOrDeleteUserReq ''00u1'')) = None"
    by (simp add: okClient_def okReply_def)
  have s: "servesPages twoPagesClient [] exampleParams examplePages"
    by (simp add: page_defs)
  note a = C5_requests_per_function [of "[]" "\<lambda>m u b. None" okClient "''g''" "''r''" None
      "\<lparr>AssignmentType = [], RoleId = [], RoleStatus = [], RoleType = []\<rparr>" "''t''"
      "''00u1''" "''ACTIVE''" exampleParams examplePages "[]"]
  note b = C5_requests_per_function [of "[]" "\<lambda>m u b. None" twoPagesClient "''g''" "''r''" None
      "\<lparr>AssignmentType = [], RoleId = [], RoleStatus = [], RoleType = []\<rparr>" "''t''"
      "''00u1''" "''ACTIVE''" exampleParams examplePages "[]"]
  from a have a1: "''ACTIVE'' \<noteq> userStatusDeprovisioned
       \<and> r_err (okClient [] (DeactivateOrDeleteUserReq ''00u1'')) = None
      \<longrightarrow> length (issued [] (snd (ensureUserDelete ''00u1'' ''ACTIVE'' okClient []))) = 2"
    by (elim conjE) assumption
  from b have b1: "servesPages twoPagesClient [] exampleParams examplePages
      \<longrightarrow> (\<exists>e res qp' h'. collectUsers twoPagesClient [] exampleParams [] = Some (e, res, qp', h')
            \<and> h' = [] @ issued [] h' \<and> length (issued [] h') = length examplePages)"
    by (elim conjE) assumption
  from a1 [THEN mp, OF conjI [OF s2 ok]] b1 [THEN mp, OF s] s2 ok s
  show ?thesis by (intro conjI)
qed

end
